theory Spec2Isabelle
  imports Main
begin

section \<open>Instance model\<close>

text \<open>
  The type classes of the repository are TypeScript interfaces whose members are functions;
  an instance is an object of that interface. Each interface becomes a record of functions,
  and \<open>extends\<close> becomes record extension.

  \<^verbatim>\<open>interface Eq<A> { readonly equals: (x: A, y: A) => boolean }\<close>
  \<^verbatim>\<open>interface IOrd<A> extends Eq<A> { readonly compare: (x: A, y: A) => Ordering }\<close>
  \<^verbatim>\<open>interface Semigroup<A> { concat: (x: A, y: A) => A }\<close>
  \<^verbatim>\<open>interface Monoid<A> extends Semigroup<A> { readonly empty: A }\<close>

  \<open>Ordering\<close> is the number type \<open>-1 | 0 | 1\<close>; it is kept as an integer, since the
  code tests it with \<open>=== 1\<close>. The members \<open>concat\<close> and \<open>empty\<close> carry a suffix
  because HOL already has constants of these names.

  The values of type \<open>number\<close> that the examples use are small integers, so \<open>number\<close>
  is the type of integers: no rounding, no \<open>NaN\<close>, and \<open>===\<close> on numbers is equality.
\<close>

type_synonym number = int

record 'a Eq =
  equals :: "'a \<Rightarrow> 'a \<Rightarrow> bool"

record 'a Ord = "'a Eq" +
  compare :: "'a \<Rightarrow> 'a \<Rightarrow> int"

record 'a Semigroup =
  concat_sg :: "'a \<Rightarrow> 'a \<Rightarrow> 'a"

record 'a Monoid = "'a Semigroup" +
  empty_m :: "'a"

text \<open>
  An object with the two fields \<open>x\<close> and \<open>y\<close>. \<^verbatim>\<open>type Point = { x: number; y: number }\<close>
  is its instance at numbers; the argument of a struct combinator, such as
  \<^verbatim>\<open>{ x: semigroupSum, y: semigroupSum }\<close>, is its instance at the field instances.
\<close>

record ('a, 'b) XY =
  x :: 'a
  y :: 'b

type_synonym Point = "(number, number) XY"

section \<open>Eq (src/05-category.ts)\<close>

text \<open>\<^verbatim>\<open>const eqNumber: Eq<number> = { equals: (x, y) => x === y };\<close>\<close>

definition eqNumber :: "number Eq" where
  "eqNumber = \<lparr> equals = (\<lambda>a b. a = b) \<rparr>"

text \<open>\<^verbatim>\<open>const eqPointManual: Eq<Point> = { equals: (p1, p2) => p1.x === p2.x && p1.y === p2.y };\<close>\<close>

definition eqPointManual :: "Point Eq" where
  "eqPointManual = \<lparr> equals = (\<lambda>p1 p2. x p1 = x p2 \<and> y p1 = y p2) \<rparr>"

text \<open>
  Modelled from the spec: \<open>getStructEq\<close> belongs to the library \<open>fp-ts/lib/Eq\<close> and is
  not under src/. The spec: "equal iff every field is pairwise equal under its own
  instance". The field set is that of the object given, here \<open>x\<close> and \<open>y\<close>.
\<close>

definition getStructEq :: "('a Eq, 'b Eq) XY \<Rightarrow> ('a, 'b) XY Eq" where
  "getStructEq eqs =
     \<lparr> equals = (\<lambda>p q. equals (x eqs) (x p) (x q) \<and> equals (y eqs) (y p) (y q)) \<rparr>"

text \<open>\<^verbatim>\<open>const eqPoint: Eq<Point> = getStructEq({ x: eqNumber, y: eqNumber });\<close>\<close>

definition eqPoint :: "Point Eq" where
  "eqPoint = getStructEq \<lparr> x = eqNumber, y = eqNumber \<rparr>"

section \<open>Ord (src/02-ord.ts)\<close>

text \<open>
  \<^verbatim>\<open>const ordNumberA: IOrd<number> = {
    equals: (x, y) => x === y,
    compare: (x, y) => (x < y ? -1 : x > y ? 1 : 0),
  };\<close>
\<close>

definition ordNumberA :: "number Ord" where
  "ordNumberA =
     \<lparr> equals = (\<lambda>a b. a = b),
       compare = (\<lambda>a b. if a < b then - 1 else if a > b then 1 else 0) \<rparr>"

text \<open>
  Modelled from the spec: \<open>fromCompare\<close> belongs to the library \<open>fp-ts/lib/Ord\<close> and is
  not under src/. The source describes it: it defines "an Ord instance by simply specifying
  a compare function", with the lawful \<open>equals\<close> derived as
  \<^verbatim>\<open>equals: (x, y) => compare(x, y) === 0\<close>.
\<close>

definition fromCompare :: "('a \<Rightarrow> 'a \<Rightarrow> int) \<Rightarrow> 'a Ord" where
  "fromCompare cmp = \<lparr> equals = (\<lambda>a b. cmp a b = 0), compare = cmp \<rparr>"

text \<open>\<^verbatim>\<open>const ordNumber: Ord<number> = fromCompare((x, y) => (x < y ? -1 : x > y ? 1 : 0));\<close>\<close>

definition ordNumber :: "number Ord" where
  "ordNumber = fromCompare (\<lambda>a b. if a < b then - 1 else if a > b then 1 else 0)"

text \<open>
  \<^verbatim>\<open>function min<A>(O: Ord<A>): (x: A, y: A) => A {
    return (x, y) => (O.compare(x, y) === 1 ? y : x);
  }\<close>
\<close>

definition min_ord :: "'a Ord \<Rightarrow> 'a \<Rightarrow> 'a \<Rightarrow> 'a" where
  "min_ord ord a b = (if compare ord a b = 1 then b else a)"

text \<open>
  Modelled from the spec: \<open>getDualOrd\<close> belongs to the library \<open>fp-ts/lib/Ord\<close> and is
  not under src/. The spec: "\<open>dualOrd(ord)\<close>: \<open>compare(x,y) = -ord.compare(x,y)\<close>".
\<close>

definition getDualOrd :: "'a Ord \<Rightarrow> 'a Ord" where
  "getDualOrd ord = ord \<lparr> compare := (\<lambda>a b. - compare ord a b) \<rparr>"

text \<open>
  \<^verbatim>\<open>function max<A>(O: Ord<A>): (x: A, y: A) => A {
    return min(getDualOrd(O));
  }\<close>
\<close>

definition max_ord :: "'a Ord \<Rightarrow> 'a \<Rightarrow> 'a \<Rightarrow> 'a" where
  "max_ord ord = min_ord (getDualOrd ord)"

text \<open>
  \<^verbatim>\<open>type User = { name: string; age: number };\<close>
  \<^verbatim>\<open>const byAgeA: Ord<User> = fromCompare((x, y) => ordNumber.compare(x.age, y.age));\<close>
\<close>

record User =
  name :: string
  age :: number

definition byAgeA :: "User Ord" where
  "byAgeA = fromCompare (\<lambda>a b. compare ordNumber (age a) (age b))"

text \<open>
  The laws that the source asks of an \<open>Ord\<close> instance, for an ordering that is total and
  whose "is equal to" is equality: \<open>compare\<close> answers \<open>-1\<close>, \<open>0\<close> or \<open>1\<close>;
  "x is equal to y if and only if compare(x, y) is equal to 0"; antisymmetry and
  transitivity of "\<open>x <= y\<close> if and only if \<open>compare(x, y) <= 0\<close>"; and any two values are
  comparable.
\<close>

definition total_order :: "'a Ord \<Rightarrow> bool" where
  "total_order ord \<longleftrightarrow>
     (\<forall>a b. compare ord a b = - 1 \<or> compare ord a b = 0 \<or> compare ord a b = 1) \<and>
     (\<forall>a b. compare ord a b = 0 \<longleftrightarrow> a = b) \<and>
     (\<forall>a b. compare ord a b \<le> 0 \<and> compare ord b a \<le> 0 \<longrightarrow> a = b) \<and>
     (\<forall>a b c. compare ord a b \<le> 0 \<and> compare ord b c \<le> 0 \<longrightarrow> compare ord a c \<le> 0) \<and>
     (\<forall>a b. compare ord a b \<le> 0 \<or> compare ord b a \<le> 0)"

section \<open>Semigroup (src/03-semigroup.ts)\<close>

text \<open>\<^verbatim>\<open>const semigroupSum: Semigroup<number> = { concat: (x, y) => x + y };\<close>\<close>

definition semigroupSum :: "number Semigroup" where
  "semigroupSum = \<lparr> concat_sg = (\<lambda>a b. a + b) \<rparr>"

text \<open>
  Modelled from the spec: \<open>getMeetSemigroup\<close> and \<open>getJoinSemigroup\<close> belong to the
  library \<open>fp-ts/lib/Semigroup\<close> and are not under src/. The spec: "\<open>meet(ord)\<close> returns
  the lesser of two values under \<open>ord\<close>; \<open>join(ord)\<close> returns the greater"; the source:
  "Takes the minimum of two values", "Takes the maximum of two values". The minimum and
  the maximum of two values under an \<open>Ord\<close> are the repository's \<open>min\<close> and \<open>max\<close>.
\<close>

definition getMeetSemigroup :: "'a Ord \<Rightarrow> 'a Semigroup" where
  "getMeetSemigroup ord = \<lparr> concat_sg = min_ord ord \<rparr>"

definition getJoinSemigroup :: "'a Ord \<Rightarrow> 'a Semigroup" where
  "getJoinSemigroup ord = \<lparr> concat_sg = max_ord ord \<rparr>"

text \<open>
  \<^verbatim>\<open>const semigroupMin: Semigroup<number> = getMeetSemigroup(ordNumber);\<close>
  \<^verbatim>\<open>const semigroupMax: Semigroup<number> = getJoinSemigroup(ordNumber);\<close>
\<close>

definition semigroupMin :: "number Semigroup" where
  "semigroupMin = getMeetSemigroup ordNumber"

definition semigroupMax :: "number Semigroup" where
  "semigroupMax = getJoinSemigroup ordNumber"

text \<open>
  \<^verbatim>\<open>const semigroupPoint: Semigroup<Point> = {
    concat: (p1, p2) => ({
      x: semigroupSum.concat(p1.x, p2.x),
      y: semigroupSum.concat(p1.y, p2.y),
    }),
  };\<close>
\<close>

definition semigroupPoint :: "Point Semigroup" where
  "semigroupPoint =
     \<lparr> concat_sg = (\<lambda>p1 p2.
         \<lparr> x = concat_sg semigroupSum (x p1) (x p2),
           y = concat_sg semigroupSum (y p1) (y p2) \<rparr>) \<rparr>"

text \<open>\<^verbatim>\<open>const p1 = { x: 10, y: 15 }; const p2 = { x: 3, y: 5 };\<close>\<close>

definition p1 :: Point where
  "p1 = \<lparr> x = 10, y = 15 \<rparr>"

definition p2 :: Point where
  "p2 = \<lparr> x = 3, y = 5 \<rparr>"

text \<open>
  Modelled from the spec: \<open>getStructSemigroup\<close> belongs to the library
  \<open>fp-ts/lib/Semigroup\<close> and is not under src/. The spec: "combine is field-wise"; the
  source: "we can build a Semigroup instance for a struct like Point if we can provide a
  Semigroup instance for each field".
\<close>

definition getStructSemigroup ::
  "(('a, 'm) Semigroup_scheme, ('b, 'n) Semigroup_scheme) XY \<Rightarrow> ('a, 'b) XY Semigroup" where
  "getStructSemigroup sgs =
     \<lparr> concat_sg = (\<lambda>p q.
         \<lparr> x = concat_sg (x sgs) (x p) (x q),
           y = concat_sg (y sgs) (y p) (y q) \<rparr>) \<rparr>"

text \<open>\<^verbatim>\<open>const semigroupPointB: Semigroup<Point> = getStructSemigroup({ x: semigroupSum, y: semigroupSum });\<close>\<close>

definition semigroupPointB :: "Point Semigroup" where
  "semigroupPointB = getStructSemigroup \<lparr> x = semigroupSum, y = semigroupSum \<rparr>"

text \<open>
  Modelled from the spec: \<open>fold\<close> of the library \<open>fp-ts/lib/Semigroup\<close> is not under
  src/. The spec: "left-to-right reduction using \<open>combine\<close>, starting from \<open>initial\<close>";
  the source: "takes a semigroup instance, an initial value and an array of elements".
  The reduction is written as the loop over the array, the accumulator on the left of
  \<open>concat\<close>.
\<close>

primrec fold_semigroup :: "('a, 'm) Semigroup_scheme \<Rightarrow> 'a \<Rightarrow> 'a list \<Rightarrow> 'a" where
  "fold_semigroup S a [] = a"
| "fold_semigroup S a (b # bs) = fold_semigroup S (concat_sg S a b) bs"

text \<open>\<^verbatim>\<open>const sum = fold(semigroupSum);\<close>, with \<^verbatim>\<open>sum(0, [1, 2, 3, 4])\<close> expected to be \<open>10\<close>.\<close>

definition sum_fold :: "number \<Rightarrow> number list \<Rightarrow> number" where
  "sum_fold = fold_semigroup semigroupSum"

text \<open>
  Modelled from the spec: \<open>getApplySemigroup\<close> belongs to the library
  \<open>fp-ts/lib/Option\<close> and is not under src/. The source gives its table: \<open>none\<close> when
  either argument is \<open>none\<close>, and the two values merged by the semigroup of \<open>A\<close> when both
  are \<open>some\<close> ("\<open>some(a) some(b) some(concat(a, b))\<close>"). \<open>Option\<close> is HOL's option type.
\<close>

definition getApplySemigroup :: "('a, 'm) Semigroup_scheme \<Rightarrow> 'a option Semigroup" where
  "getApplySemigroup S =
     \<lparr> concat_sg = (\<lambda>u v.
         case u of None \<Rightarrow> None
         | Some a \<Rightarrow> (case v of None \<Rightarrow> None | Some b \<Rightarrow> Some (concat_sg S a b))) \<rparr>"

text \<open>
  \<^verbatim>\<open>const S = getApplySemigroup(semigroupSum);\<close> The source calls it \<open>S\<close>, a name that
  other files of the repository use for other instances.
\<close>

definition S_apply :: "number option Semigroup" where
  "S_apply = getApplySemigroup semigroupSum"

section \<open>Monoid (src/07-applicative.ts, second part)\<close>

text \<open>\<^verbatim>\<open>const monoidSum: Monoid<number> = { concat: (x, y) => x + y, empty: 0 };\<close>\<close>

definition monoidSum :: "number Monoid" where
  "monoidSum = \<lparr> concat_sg = (\<lambda>a b. a + b), empty_m = 0 \<rparr>"

text \<open>
  Modelled from the spec: \<open>getStructMonoid\<close> belongs to the library \<open>fp-ts/lib/Monoid\<close>
  and is not under src/. The spec: "combine is field-wise; identity is the record of each
  field's identity".
\<close>

definition getStructMonoid :: "('a Monoid, 'b Monoid) XY \<Rightarrow> ('a, 'b) XY Monoid" where
  "getStructMonoid ms =
     \<lparr> concat_sg = (\<lambda>p q.
         \<lparr> x = concat_sg (x ms) (x p) (x q),
           y = concat_sg (y ms) (y p) (y q) \<rparr>),
       empty_m = \<lparr> x = empty_m (x ms), y = empty_m (y ms) \<rparr> \<rparr>"

text \<open>\<^verbatim>\<open>const monoidPoint: Monoid<Point> = getStructMonoid({ x: monoidSum, y: monoidSum });\<close>\<close>

definition monoidPoint :: "Point Monoid" where
  "monoidPoint = getStructMonoid \<lparr> x = monoidSum, y = monoidSum \<rparr>"

text \<open>
  Modelled from the spec: \<open>fold\<close> of the library \<open>fp-ts/lib/Monoid\<close> is not under src/.
  The spec: "left-to-right reduction using \<open>combine\<close>, starting from ... the monoid's own
  identity (Monoid variant, no initial value required)". The left-to-right reduction of a
  list is \<open>foldl\<close>.
\<close>

definition fold_monoid :: "'a Monoid \<Rightarrow> 'a list \<Rightarrow> 'a" where
  "fold_monoid M as = foldl (concat_sg M) (empty_m M) as"

section \<open>Functor (src/specs/monoid.spec.ts, second part)\<close>

text \<open>
  \<^verbatim>\<open>interface Response<A> { url: string; status: number; headers: Record<string, string>; body: A }\<close>
  \<^verbatim>\<open>function map<A, B>(fa: Response<A>, f: (a: A) => B): Response<B> {
    return { ...fa, body: f(fa.body) };
  }\<close>

  The spread copies the fields of \<open>fa\<close>, and \<open>body\<close> is then given anew. The result has
  another type than \<open>fa\<close>, so it is built field by field.
\<close>

record 'a Response =
  url :: string
  status :: number
  headers :: "string \<rightharpoonup> string"
  body :: 'a

definition map_Response :: "'a Response \<Rightarrow> ('a \<Rightarrow> 'b) \<Rightarrow> 'b Response" where
  "map_Response fa f =
     \<lparr> url = url fa, status = status fa, headers = headers fa, body = f (body fa) \<rparr>"

section \<open>Applicative (src/07-applicative.ts)\<close>

text \<open>
  \<^verbatim>\<open>interface Apply<F> extends Functor<F> {
    ap: <C, D>(fcd: HKT<F, (c: C) => D>, fc: HKT<F, C>) => HKT<F, D>;
  }\<close>

  The members of an instance are generic functions. A record field has one type, so the
  record of an instance holds \<open>map\<close> and \<open>ap\<close> at the types at which \<open>liftA2\<close> calls them:
  \<open>'fb\<close>, \<open>'fcd\<close>, \<open>'fc\<close> and \<open>'fd\<close> stand for \<open>F<B>\<close>, \<open>F<(c: C) => D>\<close>, \<open>F<C>\<close> and
  \<open>F<D>\<close>.
\<close>

record ('fb, 'b, 'cd, 'fcd) Functor =
  map_F :: "'fb \<Rightarrow> ('b \<Rightarrow> 'cd) \<Rightarrow> 'fcd"

record ('fb, 'b, 'cd, 'fcd, 'fc, 'fd) Apply = "('fb, 'b, 'cd, 'fcd) Functor" +
  ap :: "'fcd \<Rightarrow> 'fc \<Rightarrow> 'fd"

text \<open>
  Modelled from the spec: \<open>flatten\<close> belongs to the library \<open>fp-ts/lib/Array\<close> and is not
  under src/. It joins an array of arrays into one array, in order: the source expects
  \<open>[5, 6, 6, 7]\<close> of two functions applied to two strings.
\<close>

definition flatten :: "'a list list \<Rightarrow> 'a list" where
  "flatten = concat"

text \<open>
  \<^verbatim>\<open>const applicativeArray = {
    map: <A, B>(fa: Array<A>, f: (a: A) => B): Array<B> => fa.map(f),
    of: <A>(a: A): Array<A> => [a],
    ap: <A, B>(fab: Array<(a: A) => B>, fa: Array<A>): Array<B> => flatten(fab.map((f) => fa.map(f))),
  };\<close>
\<close>

definition applicativeArray_map :: "'a list \<Rightarrow> ('a \<Rightarrow> 'b) \<Rightarrow> 'b list" where
  "applicativeArray_map fa f = map f fa"

definition applicativeArray_of :: "'a \<Rightarrow> 'a list" where
  "applicativeArray_of a = [a]"

definition applicativeArray_ap :: "('a \<Rightarrow> 'b) list \<Rightarrow> 'a list \<Rightarrow> 'b list" where
  "applicativeArray_ap fab fa = flatten (map (\<lambda>f. map f fa) fab)"

definition applicativeArray :: "('b list, 'b, 'c \<Rightarrow> 'd, ('c \<Rightarrow> 'd) list, 'c list, 'd list) Apply" where
  "applicativeArray = \<lparr> map_F = applicativeArray_map, ap = applicativeArray_ap \<rparr>"

text \<open>
  \<^verbatim>\<open>const applicativeOption = {
    map: <A, B>(fa: Option<A>, f: (a: A) => B): Option<B> => (isNone(fa) ? none : some(f(fa.value))),
    of: <A>(a: A): Option<A> => some(a),
    ap: <A, B>(fab: Option<(a: A) => B>, fa: Option<A>): Option<B> =>
      isNone(fab) ? none : applicativeOption.map(fa, fab.value),
  };\<close>
\<close>

definition applicativeOption_map :: "'a option \<Rightarrow> ('a \<Rightarrow> 'b) \<Rightarrow> 'b option" where
  "applicativeOption_map fa f = (case fa of None \<Rightarrow> None | Some a \<Rightarrow> Some (f a))"

definition applicativeOption_of :: "'a \<Rightarrow> 'a option" where
  "applicativeOption_of a = Some a"

definition applicativeOption_ap :: "('a \<Rightarrow> 'b) option \<Rightarrow> 'a option \<Rightarrow> 'b option" where
  "applicativeOption_ap fab fa =
     (case fab of None \<Rightarrow> None | Some f \<Rightarrow> applicativeOption_map fa f)"

definition applicativeOption ::
  "('b option, 'b, 'c \<Rightarrow> 'd, ('c \<Rightarrow> 'd) option, 'c option, 'd option) Apply" where
  "applicativeOption = \<lparr> map_F = applicativeOption_map, ap = applicativeOption_ap \<rparr>"

text \<open>
  \<^verbatim>\<open>export function liftA2<F extends URIS>(F: Apply1<F>): ... {
    return (g) => (fb) => (fc) => F.ap(F.map(fb, g), fc);
  }\<close>
\<close>

definition liftA2 ::
  "('fb, 'b, 'c \<Rightarrow> 'd, 'fcd, 'fc, 'fd) Apply \<Rightarrow> ('b \<Rightarrow> 'c \<Rightarrow> 'd) \<Rightarrow> 'fb \<Rightarrow> 'fc \<Rightarrow> 'fd" where
  "liftA2 F g fb fc = ap F (map_F F fb g) fc"

section \<open>The property-based test of the separator semigroup (src/unnamed/part_000)\<close>

text \<open>
  \<^verbatim>\<open>const S: Semigroup<string> = { concat: (x, y) => x + ' ' + y };\<close>
  \<^verbatim>\<open>const associativity = (x, y, z) => S.concat(S.concat(x, y), z) === S.concat(x, S.concat(y, z));\<close>

  The test file calls its instance \<open>S\<close>; it is \<open>S_space\<close> here, as other files of
  the repository have an \<open>S\<close> of their own.
\<close>

definition S_space :: "string Semigroup" where
  "S_space = \<lparr> concat_sg = (\<lambda>a b. a @ '' '' @ b) \<rparr>"

definition associativity :: "string \<Rightarrow> string \<Rightarrow> string \<Rightarrow> bool" where
  "associativity a b c \<longleftrightarrow>
     concat_sg S_space (concat_sg S_space a b) c = concat_sg S_space a (concat_sg S_space b c)"

section \<open>Theorems\<close>

subsection \<open>The separator semigroup\<close>

text \<open>
  C1, as stated: the triple \<open>"a"\<close>, \<open>"b"\<close>, \<open>"c"\<close> gives two differing results. It does
  not: both sides are \<open>"a b c"\<close>, and the associativity predicate is true there.
\<close>

theorem C1_abc_results_equal:
  "associativity ''a'' ''b'' ''c''
   \<and> concat_sg S_space (concat_sg S_space ''a'' ''b'') ''c'' = ''a b c''
   \<and> concat_sg S_space ''a'' (concat_sg S_space ''b'' ''c'') = ''a b c''"
  by (simp add: associativity_def S_space_def)

text \<open>
  C1, amended: concatenation with a separator is associative, so the associativity
  property holds for every triple of strings and the test, which expects the instance to
  be lawful, accepts it.
\<close>

theorem C1_separator_concat_associative:
  "associativity a b c"
  by (simp add: associativity_def S_space_def)

subsection \<open>Minimum and maximum under a total order\<close>

lemma total_order_refl:
  assumes "total_order ord"
  shows "compare ord a a \<le> 0"
proof -
  from assms have "\<forall>a b. compare ord a b = 0 \<longleftrightarrow> a = b"
    unfolding total_order_def by (elim conjE) assumption
  then have "compare ord a a = 0" by blast
  then show ?thesis by simp
qed

lemma total_order_antisym:
  assumes "total_order ord" and "compare ord a b \<le> 0" and "compare ord b a \<le> 0"
  shows "a = b"
proof -
  from assms(1) have "\<forall>a b. compare ord a b \<le> 0 \<and> compare ord b a \<le> 0 \<longrightarrow> a = b"
    unfolding total_order_def by (elim conjE) assumption
  with assms(2,3) show ?thesis by blast
qed

lemma total_order_trans:
  assumes "total_order ord" and "compare ord a b \<le> 0" and "compare ord b c \<le> 0"
  shows "compare ord a c \<le> 0"
proof -
  from assms(1)
  have "\<forall>a b c. compare ord a b \<le> 0 \<and> compare ord b c \<le> 0 \<longrightarrow> compare ord a c \<le> 0"
    unfolding total_order_def by (elim conjE) assumption
  with assms(2,3) show ?thesis by blast
qed

lemma total_order_linear:
  assumes "total_order ord" and "\<not> compare ord a b \<le> 0"
  shows "compare ord b a \<le> 0"
proof -
  from assms(1) have "\<forall>a b. compare ord a b \<le> 0 \<or> compare ord b a \<le> 0"
    unfolding total_order_def by (elim conjE) assumption
  with assms(2) show ?thesis by blast
qed

lemma total_order_range:
  assumes "total_order ord"
  shows "compare ord a b = - 1 \<or> compare ord a b = 0 \<or> compare ord a b = 1"
proof -
  from assms
  have "\<forall>a b. compare ord a b = - 1 \<or> compare ord a b = 0 \<or> compare ord a b = 1"
    unfolding total_order_def by (elim conjE) assumption
  then show ?thesis by blast
qed

lemma total_order_zero:
  assumes "total_order ord"
  shows "compare ord a b = 0 \<longleftrightarrow> a = b"
proof -
  from assms have "\<forall>a b. compare ord a b = 0 \<longleftrightarrow> a = b"
    unfolding total_order_def by (elim conjE) assumption
  then show ?thesis by blast
qed


lemma total_order_ordNumberA: "total_order ordNumberA"
  by (auto simp: total_order_def ordNumberA_def)

lemma total_order_ordNumber: "total_order ordNumber"
  by (auto simp: total_order_def ordNumber_def fromCompare_def)

lemma min_ord_le:
  assumes t: "total_order ord"
  shows "min_ord ord a b = (if compare ord a b \<le> 0 then a else b)"
  using total_order_range [OF t, of a b] by (auto simp: min_ord_def)

lemma max_ord_le:
  assumes t: "total_order ord"
  shows "max_ord ord a b = (if compare ord a b \<le> 0 then b else a)"
  using total_order_range [OF t, of a b] total_order_zero [OF t, of a b]
  by (auto simp: max_ord_def min_ord_def getDualOrd_def)

lemma min_ord_assoc:
  assumes t: "total_order ord"
  shows "min_ord ord (min_ord ord a b) c = min_ord ord a (min_ord ord b c)"
proof (cases "compare ord a b \<le> 0")
  case ab: True
  show ?thesis
  proof (cases "compare ord b c \<le> 0")
    case bc: True
    from total_order_trans [OF t ab bc] ab bc show ?thesis
      by (simp add: min_ord_le [OF t])
  next
    case False
    with ab show ?thesis by (simp add: min_ord_le [OF t])
  qed
next
  case nab: False
  show ?thesis
  proof (cases "compare ord b c \<le> 0")
    case True
    with nab show ?thesis by (simp add: min_ord_le [OF t])
  next
    case nbc: False
    have "\<not> compare ord a c \<le> 0"
    proof
      assume "compare ord a c \<le> 0"
      from total_order_trans [OF t this total_order_linear [OF t nbc]] nab
      show False by simp
    qed
    with nab nbc show ?thesis by (simp add: min_ord_le [OF t])
  qed
qed

lemma max_ord_assoc:
  assumes t: "total_order ord"
  shows "max_ord ord (max_ord ord a b) c = max_ord ord a (max_ord ord b c)"
proof (cases "compare ord a b \<le> 0")
  case ab: True
  show ?thesis
  proof (cases "compare ord b c \<le> 0")
    case bc: True
    from total_order_trans [OF t ab bc] ab bc show ?thesis
      by (simp add: max_ord_le [OF t])
  next
    case False
    with ab show ?thesis by (simp add: max_ord_le [OF t])
  qed
next
  case nab: False
  show ?thesis
  proof (cases "compare ord b c \<le> 0")
    case True
    with nab show ?thesis by (simp add: max_ord_le [OF t])
  next
    case nbc: False
    have "\<not> compare ord a c \<le> 0"
    proof
      assume "compare ord a c \<le> 0"
      from total_order_trans [OF t this total_order_linear [OF t nbc]] nab
      show False by simp
    qed
    with nab nbc show ?thesis by (simp add: max_ord_le [OF t])
  qed
qed

lemma min_ord_commute:
  assumes t: "total_order ord"
  shows "min_ord ord a b = min_ord ord b a"
  using total_order_antisym [OF t, of a b] total_order_linear [OF t, of a b]
  by (auto simp: min_ord_le [OF t])

lemma max_ord_commute:
  assumes t: "total_order ord"
  shows "max_ord ord a b = max_ord ord b a"
  using total_order_antisym [OF t, of a b] total_order_linear [OF t, of a b]
  by (auto simp: max_ord_le [OF t])

lemma min_ord_idem: "min_ord ord a a = a"
  by (simp add: min_ord_def)

lemma max_ord_idem: "max_ord ord a a = a"
  by (simp add: max_ord_def min_ord_def)

lemma min_ord_lesser:
  assumes t: "total_order ord"
  shows "(min_ord ord a b = a \<or> min_ord ord a b = b)
    \<and> compare ord (min_ord ord a b) a \<le> 0 \<and> compare ord (min_ord ord a b) b \<le> 0"
  using total_order_refl [OF t, of a] total_order_refl [OF t, of b]
    total_order_linear [OF t, of a b]
  by (auto simp: min_ord_le [OF t])

lemma max_ord_greater:
  assumes t: "total_order ord"
  shows "(max_ord ord a b = a \<or> max_ord ord a b = b)
    \<and> compare ord a (max_ord ord a b) \<le> 0 \<and> compare ord b (max_ord ord a b) \<le> 0"
  using total_order_refl [OF t, of a] total_order_refl [OF t, of b]
    total_order_linear [OF t, of a b]
  by (auto simp: max_ord_le [OF t])


subsection \<open>Meet and join semigroups\<close>

text \<open>
  C3: for every total order \<open>ord\<close> and all \<open>a\<close>, \<open>b\<close>, \<open>c\<close>, the meet and the join
  semigroup derived from \<open>ord\<close> are associative, commutative and idempotent; the meet of
  two values is one of the two and is below both under \<open>ord\<close>, the join is one of the two
  and is above both.
\<close>

theorem C3_meet_join_laws:
  assumes t: "total_order ord"
  shows "concat_sg (getMeetSemigroup ord) (concat_sg (getMeetSemigroup ord) a b) c
           = concat_sg (getMeetSemigroup ord) a (concat_sg (getMeetSemigroup ord) b c)
       \<and> concat_sg (getJoinSemigroup ord) (concat_sg (getJoinSemigroup ord) a b) c
           = concat_sg (getJoinSemigroup ord) a (concat_sg (getJoinSemigroup ord) b c)
       \<and> concat_sg (getMeetSemigroup ord) a b = concat_sg (getMeetSemigroup ord) b a
       \<and> concat_sg (getJoinSemigroup ord) a b = concat_sg (getJoinSemigroup ord) b a
       \<and> concat_sg (getMeetSemigroup ord) a a = a
       \<and> concat_sg (getJoinSemigroup ord) a a = a
       \<and> (concat_sg (getMeetSemigroup ord) a b = a \<or> concat_sg (getMeetSemigroup ord) a b = b)
       \<and> compare ord (concat_sg (getMeetSemigroup ord) a b) a \<le> 0
       \<and> compare ord (concat_sg (getMeetSemigroup ord) a b) b \<le> 0
       \<and> (concat_sg (getJoinSemigroup ord) a b = a \<or> concat_sg (getJoinSemigroup ord) a b = b)
       \<and> compare ord a (concat_sg (getJoinSemigroup ord) a b) \<le> 0
       \<and> compare ord b (concat_sg (getJoinSemigroup ord) a b) \<le> 0"
proof -
  have meet: "concat_sg (getMeetSemigroup ord) = min_ord ord"
    by (simp add: getMeetSemigroup_def)
  have join: "concat_sg (getJoinSemigroup ord) = max_ord ord"
    by (simp add: getJoinSemigroup_def)
  show ?thesis
    unfolding meet join
    using min_ord_assoc [OF t, of a b c] max_ord_assoc [OF t, of a b c]
      min_ord_commute [OF t, of a b] max_ord_commute [OF t, of a b]
      min_ord_idem [of ord a] max_ord_idem [of ord a]
      min_ord_lesser [OF t, of a b] max_ord_greater [OF t, of a b]
    by blast
qed

text \<open>
  The number ordering is a total order; at \<open>2\<close>, \<open>1\<close>, \<open>3\<close> the laws read as the source
  expects: \<^verbatim>\<open>semigroupMin.concat(2, 1); // 1\<close> and \<^verbatim>\<open>semigroupMax.concat(2, 1); // 2\<close>.
\<close>

theorem C3_meet_join_laws_witness:
  "total_order ordNumber
   \<and> concat_sg semigroupMin (concat_sg semigroupMin 2 1) 3 = 1
   \<and> concat_sg semigroupMin 2 (concat_sg semigroupMin 1 3) = 1
   \<and> concat_sg semigroupMax (concat_sg semigroupMax 2 1) 3 = 3
   \<and> concat_sg semigroupMax 2 (concat_sg semigroupMax 1 3) = 3
   \<and> concat_sg semigroupMin 2 1 = 1 \<and> concat_sg semigroupMin 1 2 = 1
   \<and> concat_sg semigroupMax 2 1 = 2 \<and> concat_sg semigroupMax 1 2 = 2
   \<and> concat_sg semigroupMin 2 2 = 2 \<and> concat_sg semigroupMax 2 2 = 2
   \<and> compare ordNumber (concat_sg semigroupMin 2 1) 2 \<le> 0
   \<and> compare ordNumber 1 (concat_sg semigroupMax 2 1) \<le> 0"
  using C3_meet_join_laws [OF total_order_ordNumber, of 2 1 3] total_order_ordNumber
  by (simp add: semigroupMin_def semigroupMax_def getMeetSemigroup_def
      getJoinSemigroup_def min_ord_def max_ord_def getDualOrd_def ordNumber_def
      fromCompare_def)

subsection \<open>Ties of min and max\<close>

text \<open>
  C10: for every \<open>Ord\<close> instance and all \<open>a\<close>, \<open>b\<close> that it compares as \<open>0\<close>, both
  \<open>min\<close> and \<open>max\<close> return the first argument \<open>a\<close>.
\<close>

theorem C10_ties_return_left:
  assumes "compare ord a b = 0"
  shows "min_ord ord a b = a \<and> max_ord ord a b = a"
  using assms by (simp add: min_ord_def max_ord_def getDualOrd_def)

text \<open>
  Two users of the same age are a tie of \<open>byAgeA\<close>, and both \<open>min\<close> and \<open>max\<close> return
  the first of them, although the users differ.
\<close>

theorem C10_ties_return_left_witness:
  "compare byAgeA \<lparr> name = ''Dimebag'', age = 34 \<rparr> \<lparr> name = ''Darrell'', age = 34 \<rparr> = 0
   \<and> min_ord byAgeA \<lparr> name = ''Dimebag'', age = 34 \<rparr> \<lparr> name = ''Darrell'', age = 34 \<rparr>
       = \<lparr> name = ''Dimebag'', age = 34 \<rparr>
   \<and> max_ord byAgeA \<lparr> name = ''Dimebag'', age = 34 \<rparr> \<lparr> name = ''Darrell'', age = 34 \<rparr>
       = \<lparr> name = ''Dimebag'', age = 34 \<rparr>"
proof -
  have tie: "compare byAgeA \<lparr> name = ''Dimebag'', age = 34 \<rparr> \<lparr> name = ''Darrell'', age = 34 \<rparr> = 0"
    by (simp add: byAgeA_def ordNumber_def fromCompare_def)
  from C10_ties_return_left [OF tie] tie show ?thesis by simp
qed

subsection \<open>The struct semigroup and monoid of Point\<close>

text \<open>
  C2: the struct semigroup and the struct monoid over \<open>x\<close> and \<open>y\<close>, with number addition
  for each field, combine \<open>{x: 10, y: 15}\<close> and \<open>{x: 3, y: 5}\<close> into \<open>{x: 13, y: 20}\<close>, as
  the hand-written \<open>semigroupPoint\<close> does; the identity of the struct monoid is
  \<open>{x: 0, y: 0}\<close>, and combining either operand with it, on either side, returns the operand.
\<close>

theorem C2_struct_point_sum:
  "concat_sg semigroupPoint p1 p2 = \<lparr> x = 13, y = 20 \<rparr>
   \<and> concat_sg semigroupPointB p1 p2 = \<lparr> x = 13, y = 20 \<rparr>
   \<and> concat_sg monoidPoint p1 p2 = \<lparr> x = 13, y = 20 \<rparr>
   \<and> empty_m monoidPoint = \<lparr> x = 0, y = 0 \<rparr>
   \<and> concat_sg monoidPoint p1 \<lparr> x = 0, y = 0 \<rparr> = p1
   \<and> concat_sg monoidPoint \<lparr> x = 0, y = 0 \<rparr> p1 = p1
   \<and> concat_sg monoidPoint p2 \<lparr> x = 0, y = 0 \<rparr> = p2
   \<and> concat_sg monoidPoint \<lparr> x = 0, y = 0 \<rparr> p2 = p2"
  by (simp add: semigroupPoint_def semigroupPointB_def monoidPoint_def getStructSemigroup_def
      getStructMonoid_def semigroupSum_def monoidSum_def p1_def p2_def)

subsection \<open>The array applicative\<close>

lemma length_flatten_map:
  "length (flatten (map (\<lambda>f. map f fa) fab)) = length fab * length fa"
  by (induction fab) (simp_all add: flatten_def)

lemma applicativeArray_ap_example:
  "applicativeArray_ap [\<lambda>st. int (length st), \<lambda>st. int (length st) + 1] [''hello'', ''world!'']
     = [5, 6, 6, 7]"
  by (simp add: applicativeArray_ap_def flatten_def)

lemma length_applicativeArray_ap:
  "length (applicativeArray_ap fab fa) = length fab * length fa"
  by (simp add: applicativeArray_ap_def length_flatten_map)

lemma liftA2_applicativeArray:
  "liftA2 applicativeArray g fb fc = applicativeArray_ap (map g fb) fc"
  by (simp add: liftA2_def applicativeArray_def applicativeArray_map_def)

lemma applicativeArray_ap_Nil_left: "applicativeArray_ap [] fa = []"
  by (simp add: applicativeArray_ap_def flatten_def)

lemma applicativeArray_ap_Nil_right: "applicativeArray_ap fab [] = []"
  using length_applicativeArray_ap [of fab "[]"] by simp

text \<open>
  C4: for the array applicative, \<open>ap\<close> of \<open>N\<close> functions and \<open>M\<close> arguments has exactly
  \<open>N * M\<close> elements, and so has \<open>liftA2\<close>, built from \<open>map\<close> and \<open>ap\<close>, of an \<open>N\<close>-element
  and an \<open>M\<close>-element array; an empty array on either side gives the empty array.
\<close>

theorem C4_array_ap_length:
  "length (applicativeArray_ap fab fa) = length fab * length fa
   \<and> length (liftA2 applicativeArray g fb fc) = length fb * length fc
   \<and> applicativeArray_ap [] fa = []
   \<and> applicativeArray_ap fab [] = []
   \<and> liftA2 applicativeArray g [] fc = []
   \<and> liftA2 applicativeArray g fb [] = []"
  by (simp add: length_applicativeArray_ap liftA2_applicativeArray
      applicativeArray_ap_Nil_left applicativeArray_ap_Nil_right)

subsection \<open>The optional applicative and the apply semigroup of Option\<close>

text \<open>
  C5: \<open>ap\<close> over \<open>Option\<close>, and \<open>concat\<close> of the semigroup that \<open>getApplySemigroup\<close>
  derives, are \<open>none\<close> if and only if at least one operand is \<open>none\<close>; of two present
  operands the result is \<open>some\<close> of the applied, or of the combined, value.
\<close>

theorem C5_option_absent_iff:
  "(applicativeOption_ap fab fa = None \<longleftrightarrow> fab = None \<or> fa = None)
   \<and> applicativeOption_ap (Some f) (Some a) = Some (f a)
   \<and> (concat_sg (getApplySemigroup S) u v = None \<longleftrightarrow> u = None \<or> v = None)
   \<and> concat_sg (getApplySemigroup S) (Some c) (Some d) = Some (concat_sg S c d)
   \<and> concat_sg S_apply (Some 1) None = None
   \<and> concat_sg S_apply (Some 1) (Some 2) = Some 3"
  by (simp add: applicativeOption_ap_def applicativeOption_map_def
      getApplySemigroup_def S_apply_def semigroupSum_def split: option.splits)

lemma liftA2_applicativeOption:
  "(liftA2 applicativeOption g fb fc = None \<longleftrightarrow> fb = None \<or> fc = None)
   \<and> liftA2 applicativeOption g (Some b) (Some c) = Some (g b c)"
  by (simp add: applicativeOption_ap_def applicativeOption_map_def liftA2_def
      applicativeOption_def split: option.splits)

subsection \<open>Folding\<close>

lemma fold_semigroup_foldl: "fold_semigroup S a as = foldl (concat_sg S) a as"
  by (induction as arbitrary: a) simp_all

text \<open>
  C6: for every monoid \<open>M\<close> and every list, the monoid fold equals the semigroup fold
  started from the identity of \<open>M\<close>, and both equal the left-to-right reduction of the
  list by \<open>concat\<close>; folding \<open>[1, 2, 3, 4]\<close> under addition yields \<open>10\<close>.
\<close>

theorem C6_fold_monoid_is_fold_semigroup:
  "fold_monoid M as = fold_semigroup M (empty_m M) as
   \<and> fold_monoid M as = foldl (concat_sg M) (empty_m M) as
   \<and> fold_semigroup M (empty_m M) as = foldl (concat_sg M) (empty_m M) as
   \<and> fold_monoid monoidSum [1, 2, 3, 4] = 10
   \<and> sum_fold 0 [1, 2, 3, 4] = 10"
  by (simp add: fold_monoid_def fold_semigroup_foldl sum_fold_def monoidSum_def semigroupSum_def)

subsection \<open>Equality of points\<close>

text \<open>
  C7: \<open>eqPoint.equals(p, q)\<close> is true if and only if \<open>p.x === q.x\<close> and \<open>p.y === q.y\<close>;
  it coincides with \<open>eqPointManual.equals\<close>.
\<close>

theorem C7_eqPoint_fieldwise:
  "(equals eqPoint p q \<longleftrightarrow> x p = x q \<and> y p = y q)
   \<and> equals eqPoint p q = equals eqPointManual p q"
  by (simp add: eqPoint_def getStructEq_def eqNumber_def eqPointManual_def)

subsection \<open>The functor of Response\<close>

text \<open>
  C9: \<open>map(fa, f)\<close> leaves \<open>url\<close>, \<open>status\<close> and \<open>headers\<close> as they are in \<open>fa\<close> and sets
  \<open>body\<close> to \<open>f(fa.body)\<close>.
\<close>

theorem C9_map_Response_frame:
  "url (map_Response fa f) = url fa
   \<and> status (map_Response fa f) = status fa
   \<and> headers (map_Response fa f) = headers fa
   \<and> body (map_Response fa f) = f (body fa)"
  by (simp add: map_Response_def)

end
